theory Spec2Isabelle
  imports Complex_Main "HOL-Library.Word"
begin

unbundle bit_operations_syntax

section \<open>JavaScript primitives used by the backend\<close>

text \<open>
  JavaScript numbers that the modelled code only ever uses as integers are \<open>int\<close>;
  the bitwise operators first convert their operands to 32-bit integers, which is
  written out with \<open>32 word\<close>. Strings are restricted to ASCII, where
  \<open>toUpperCase\<close>, \<open>toLowerCase\<close> and \<open>trim\<close> act bytewise.
\<close>

definition to_int32 :: "int \<Rightarrow> 32 word" where
  "to_int32 n = word_of_int n"

definition js_and :: "int \<Rightarrow> int \<Rightarrow> int" where
  "js_and a b = sint (to_int32 a AND to_int32 b)"

definition js_or :: "int \<Rightarrow> int \<Rightarrow> int" where
  "js_or a b = sint (to_int32 a OR to_int32 b)"

definition js_shl :: "int \<Rightarrow> nat \<Rightarrow> int" where
  "js_shl a i = sint (push_bit (i mod 32) (to_int32 a))"

definition toUpperCase_char :: "char \<Rightarrow> char" where
  "toUpperCase_char c =
     (let n = (of_char c :: nat) in if 97 \<le> n \<and> n \<le> 122 then char_of (n - 32) else c)"

definition toLowerCase_char :: "char \<Rightarrow> char" where
  "toLowerCase_char c =
     (let n = (of_char c :: nat) in if 65 \<le> n \<and> n \<le> 90 then char_of (n + 32) else c)"

definition toUpperCase :: "string \<Rightarrow> string" where
  "toUpperCase s = map toUpperCase_char s"

definition toLowerCase :: "string \<Rightarrow> string" where
  "toLowerCase s = map toLowerCase_char s"

text \<open>\<open>Array.prototype.indexOf\<close>: the first position of the element, or \<open>-1\<close>.\<close>

fun indexOf_from :: "'a list \<Rightarrow> 'a \<Rightarrow> int \<Rightarrow> int" where
  "indexOf_from [] x i = -1"
| "indexOf_from (y # ys) x i = (if y = x then i else indexOf_from ys x (i + 1))"

definition indexOf :: "'a list \<Rightarrow> 'a \<Rightarrow> int" where
  "indexOf xs x = indexOf_from xs x 0"

section \<open>utils/constants.js\<close>

definition DATA_FORMAT_NAMES :: "string list" where
  "DATA_FORMAT_NAMES = [''AUDIO'', ''CSV'', ''IMAGE'', ''TEXT'', ''VIDEO'', ''MIXED'']"

definition REQUEST_STATUS_NAMES :: "string list" where
  "REQUEST_STATUS_NAMES = [''OPEN'', ''CLOSED'']"

definition SUBMISSION_STATUS_NAMES :: "string list" where
  "SUBMISSION_STATUS_NAMES = [''PENDING'', ''APPROVED'', ''REJECTED'', ''PAID'', ''REFUNDED'']"

section \<open>utils/validators.js\<close>

definition isValidFormatsMask :: "int \<Rightarrow> bool" where
  "isValidFormatsMask msk = (msk > 0 \<and> msk \<le> 63)"

text \<open>
  The argument of \<open>parseFormatsMask\<close> is a number, an array of strings, or anything
  else (for which the function returns \<open>null\<close>, here \<open>None\<close>). Numbers are
  taken to be integral.
\<close>

datatype formats_input = FNumber int | FArray "string list" | FOther

fun parseFormatsMask_loop :: "string list \<Rightarrow> int \<Rightarrow> int" where
  "parseFormatsMask_loop [] msk = msk"
| "parseFormatsMask_loop (format # formats) msk =
     (let formatName = toUpperCase format;
          index = indexOf DATA_FORMAT_NAMES formatName
      in parseFormatsMask_loop formats
           (if index \<noteq> -1 then js_or msk (js_shl 1 (nat index)) else msk))"

fun parseFormatsMask :: "formats_input \<Rightarrow> int option" where
  "parseFormatsMask (FNumber formats) =
     (if isValidFormatsMask formats then Some formats else None)"
| "parseFormatsMask (FArray formats) =
     (let msk = parseFormatsMask_loop formats 0 in if msk > 0 then Some msk else None)"
| "parseFormatsMask FOther = None"

text \<open>
  \<open>decodeFormatsMask\<close>: the loop \<open>for (i = 0; i < DATA_FORMAT_NAMES.length; i++)\<close>
  pushes the name of every format whose bit is set. It has no check of the mask. The
  third argument of the loop function counts the iterations still to run.
\<close>

fun decodeFormatsMask_loop :: "int \<Rightarrow> nat \<Rightarrow> nat \<Rightarrow> string list \<Rightarrow> string list" where
  "decodeFormatsMask_loop msk i 0 formats = formats"
| "decodeFormatsMask_loop msk i (Suc todo) formats =
     decodeFormatsMask_loop msk (Suc i) todo
       (if js_and msk (js_shl 1 i) \<noteq> 0 then formats @ [DATA_FORMAT_NAMES ! i] else formats)"

definition decodeFormatsMask :: "int \<Rightarrow> string list" where
  "decodeFormatsMask msk =
     decodeFormatsMask_loop msk 0 (length DATA_FORMAT_NAMES) []"

section \<open>services/blockchainService.js\<close>

text \<open>
  The ledger is an external collaborator: what it answers to a read or to a transaction
  is a parameter of the model. Every operation returns its outcome together with the
  list of ledger interactions and handler invocations it performed, in order, so that
  "before any ledger call" and "before the handler runs" are statements about that list.
  Ledger ids are natural numbers (the conversion \<open>Number(id)\<close> is taken to be exact),
  and the numeric fields of a contract result are integers whatever JavaScript type
  the ledger client returns them in.
\<close>

datatype error =
    NotInitialized \<comment> \<open>'Blockchain service not initialized'\<close>
  | SignerNotAvailable \<comment> \<open>'Signer not available. Cannot ...'\<close>
  | RequestNotFound nat \<comment> \<open>'Request <id> not found on blockchain'\<close>
  | SubmissionNotFound nat \<comment> \<open>'Submission <id> not found on blockchain'\<close>
  | EventNotFound string \<comment> \<open>'<name> event not found in transaction receipt'\<close>
  | LedgerFailure string \<comment> \<open>a rejection raised by the provider or the contract\<close>

record contract_request =
  cr_id :: nat
  cr_buyer :: string
  cr_budget :: nat
  cr_formatsMask :: int
  cr_description :: string
  cr_status :: nat
  cr_qualityScore :: nat
  cr_qualityReportCid :: string
  cr_finalizedSubmissionId :: nat

record contract_submission =
  cs_id :: nat
  cs_requestId :: nat
  cs_seller :: string
  cs_model :: string
  cs_format :: nat
  cs_fileSize :: nat
  cs_sampleCount :: nat
  cs_fileExtensions :: string
  cs_datasetReference :: string
  cs_status :: nat
  cs_qualityChecked :: bool

text \<open>A receipt log either fails to parse or parses to an event name and its id argument.\<close>

datatype log = Unparsable | Parsed string nat

record receipt =
  logs :: "log list"

record tx =
  hash :: string
  wait :: "error + receipt"

record service =
  initialized :: bool
  signer :: bool
  requests :: "nat \<Rightarrow> error + contract_request"
  submissions :: "nat \<Rightarrow> error + contract_submission"
  contract_createRequest :: "int \<Rightarrow> string \<Rightarrow> nat \<Rightarrow> error + tx"
  contract_verifySubmission :: "nat \<Rightarrow> bool \<Rightarrow> int \<Rightarrow> string \<Rightarrow> error + tx"

text \<open>The objects handed to the registered handlers (the raw \<open>event\<close> field is left out).\<close>

record request_created_arg =
  rc_requestId :: nat
  rc_buyer :: string
  rc_budget :: nat
  rc_formatsMask :: int
  rc_description :: string

record submission_submitted_arg =
  ss_submissionId :: nat
  ss_requestId :: nat
  ss_seller :: string
  ss_model :: string

record submission_verified_arg =
  sv_submissionId :: nat
  sv_requestId :: nat
  sv_approved :: bool
  sv_qualityScore :: nat
  sv_qualityReportCid :: string

datatype action =
    ReadRequest nat \<comment> \<open>\<open>contract.requests(id)\<close>\<close>
  | ReadSubmission nat \<comment> \<open>\<open>contract.submissions(id)\<close>\<close>
  | SendCreateRequest int string nat \<comment> \<open>\<open>contract.createRequest(mask, description, {value})\<close>\<close>
  | SendVerifySubmission nat bool int string \<comment> \<open>\<open>contract.verifySubmission(...)\<close>\<close>
  | AwaitReceipt string \<comment> \<open>\<open>tx.wait()\<close> of the transaction with this hash\<close>
  | OnRequestCreated request_created_arg
  | OnSubmissionSubmitted submission_submitted_arg
  | OnSubmissionVerified submission_verified_arg

type_synonym 'a io = "(error + 'a) \<times> action list"

definition io_return :: "'a \<Rightarrow> 'a io" where
  "io_return x = (Inr x, [])"

definition io_throw :: "error \<Rightarrow> 'a io" where
  "io_throw e = (Inl e, [])"

definition io_call :: "action \<Rightarrow> error + 'a \<Rightarrow> 'a io" where
  "io_call a outcome = (outcome, [a])"

definition io_bind :: "'a io \<Rightarrow> ('a \<Rightarrow> 'b io) \<Rightarrow> 'b io" where
  "io_bind m f =
     (case m of
        (Inl e, t) \<Rightarrow> (Inl e, t)
      | (Inr x, t) \<Rightarrow> (case f x of (r, t') \<Rightarrow> (r, t @ t')))"

definition ensureInitialized :: "service \<Rightarrow> unit io" where
  "ensureInitialized svc = (if initialized svc then io_return () else io_throw NotInitialized)"

text \<open>\<open>NAMES[i]\<close>: \<open>undefined\<close> (here \<open>None\<close>) outside the array.\<close>

definition name_at :: "string list \<Rightarrow> nat \<Rightarrow> string option" where
  "name_at names i = (if i < length names then Some (names ! i) else None)"

record request_data =
  requestId :: nat
  buyerAddress :: string
  description :: string
  budget :: nat
  formatsMask :: int
  acceptedFormats :: "string list"
  status :: "string option"
  qualityScore :: "nat option"
  ipfsReportCid :: "string option"
  finalizedSubmissionId :: "nat option"

record submission_data =
  sd_submissionId :: nat
  sd_requestId :: nat
  sd_sellerAddress :: string
  sd_modelAddress :: string
  sd_format :: "string option"
  sd_fileSize :: nat
  sd_sampleCount :: nat
  sd_fileExtensions :: string
  sd_datasetReference :: string
  sd_status :: "string option"
  sd_qualityChecked :: bool

definition syncRequest :: "service \<Rightarrow> nat \<Rightarrow> request_data io" where
  "syncRequest svc rid =
     io_bind (ensureInitialized svc) (\<lambda>_.
     io_bind (io_call (ReadRequest rid) (requests svc rid)) (\<lambda>contractRequest.
       if cr_id contractRequest = 0 then io_throw (RequestNotFound rid)
       else io_return
         \<lparr> requestId = cr_id contractRequest,
           buyerAddress = toLowerCase (cr_buyer contractRequest),
           description = cr_description contractRequest,
           budget = cr_budget contractRequest,
           formatsMask = cr_formatsMask contractRequest,
           acceptedFormats = decodeFormatsMask (cr_formatsMask contractRequest),
           status = name_at REQUEST_STATUS_NAMES (cr_status contractRequest),
           qualityScore =
             (if cr_qualityScore contractRequest = 0 then None
              else Some (cr_qualityScore contractRequest)),
           ipfsReportCid =
             (if cr_qualityReportCid contractRequest = [] then None
              else Some (cr_qualityReportCid contractRequest)),
           finalizedSubmissionId =
             (if cr_finalizedSubmissionId contractRequest \<noteq> 0
              then Some (cr_finalizedSubmissionId contractRequest) else None) \<rparr>))"

definition syncSubmission :: "service \<Rightarrow> nat \<Rightarrow> submission_data io" where
  "syncSubmission svc sid =
     io_bind (ensureInitialized svc) (\<lambda>_.
     io_bind (io_call (ReadSubmission sid) (submissions svc sid)) (\<lambda>contractSubmission.
       if cs_id contractSubmission = 0 then io_throw (SubmissionNotFound sid)
       else io_return
         \<lparr> sd_submissionId = cs_id contractSubmission,
           sd_requestId = cs_requestId contractSubmission,
           sd_sellerAddress = toLowerCase (cs_seller contractSubmission),
           sd_modelAddress = toLowerCase (cs_model contractSubmission),
           sd_format = name_at DATA_FORMAT_NAMES (cs_format contractSubmission),
           sd_fileSize = cs_fileSize contractSubmission,
           sd_sampleCount = cs_sampleCount contractSubmission,
           sd_fileExtensions = cs_fileExtensions contractSubmission,
           sd_datasetReference = cs_datasetReference contractSubmission,
           sd_status = name_at SUBMISSION_STATUS_NAMES (cs_status contractSubmission),
           sd_qualityChecked = cs_qualityChecked contractSubmission \<rparr>))"

text \<open>
  \<open>receipt.logs.find\<close>: the first log that parses to the wanted event name; a log
  that does not parse is skipped.
\<close>

fun find_event :: "string \<Rightarrow> log list \<Rightarrow> nat option" where
  "find_event name [] = None"
| "find_event name (Unparsable # ls) = find_event name ls"
| "find_event name (Parsed n i # ls) = (if n = name then Some i else find_event name ls)"

definition require_signer :: "service \<Rightarrow> unit io" where
  "require_signer svc = (if signer svc then io_return () else io_throw SignerNotAvailable)"

definition createRequest :: "service \<Rightarrow> int \<Rightarrow> string \<Rightarrow> nat \<Rightarrow> (nat \<times> string) io" where
  "createRequest svc msk descr budgetInWei =
     io_bind (ensureInitialized svc) (\<lambda>_.
     io_bind (require_signer svc) (\<lambda>_.
     io_bind (io_call (SendCreateRequest msk descr budgetInWei)
                (contract_createRequest svc msk descr budgetInWei)) (\<lambda>t.
     io_bind (io_call (AwaitReceipt (hash t)) (wait t)) (\<lambda>rcpt.
       case find_event ''RequestCreated'' (logs rcpt) of
         Some rid \<Rightarrow> io_bind (syncRequest svc rid) (\<lambda>_. io_return (rid, hash t))
       | None \<Rightarrow> io_throw (EventNotFound ''RequestCreated'')))))"

definition verifySubmission ::
  "service \<Rightarrow> nat \<Rightarrow> bool \<Rightarrow> int \<Rightarrow> string \<Rightarrow> (string \<times> receipt) io" where
  "verifySubmission svc sid approved qScore qualityReportCid =
     io_bind (ensureInitialized svc) (\<lambda>_.
     io_bind (require_signer svc) (\<lambda>_.
     io_bind (io_call (SendVerifySubmission sid approved qScore qualityReportCid)
                (contract_verifySubmission svc sid approved qScore qualityReportCid)) (\<lambda>t.
     io_bind (io_call (AwaitReceipt (hash t)) (wait t)) (\<lambda>rcpt.
     io_bind (syncSubmission svc sid) (\<lambda>_.
       io_return (hash t, rcpt))))))"








section \<open>The quality service\<close>

text \<open>
  Scores are JavaScript numbers; they are modelled as exact rationals, so the quotient in
  \<open>checkFormatCompliance\<close> and the mean in \<open>calculateOverallScore\<close> carry no
  floating-point rounding. A metrics object is the list of its properties in insertion
  order; the value \<open>None\<close> is JavaScript's \<open>null\<close>. Wall-clock values (timestamps,
  execution times) are left out.
\<close>

type_synonym metrics = "(string \<times> rat option) list"

record submission =
  submissionId :: nat
  sub_requestId :: nat
  format :: string
  fileSize :: "int option"
  sampleCount :: "int option"
  fileExtensions :: "string option"
  datasetReference :: "string option"

datatype quality_error =
    TypeError \<comment> \<open>a method called on \<open>undefined\<close>\<close>
  | StorageError string \<comment> \<open>a rejection raised by IPFS or by the log collection\<close>
  | DuplicateKey nat \<comment> \<open>the unique index on \<open>submissionId\<close> rejects the insert\<close>

subsection \<open>String helpers\<close>

definition is_space :: "char \<Rightarrow> bool" where
  "is_space c = (of_char c \<in> {9, 10, 11, 12, 13, 32 :: nat})"

definition trim :: "string \<Rightarrow> string" where
  "trim s = rev (dropWhile is_space (rev (dropWhile is_space s)))"

text \<open>\<open>s.split(',')\<close>: the pieces between commas; the empty string gives one empty piece.\<close>

fun split_comma :: "string \<Rightarrow> string list" where
  "split_comma [] = [[]]"
| "split_comma (c # cs) =
     (if c = CHR '','' then [] # split_comma cs
      else (case split_comma cs of
              w # ws \<Rightarrow> (c # w) # ws
            | [] \<Rightarrow> [[c]]))"




subsection \<open>The checks\<close>




definition expectedExtensions :: "(string \<times> string list) list" where
  "expectedExtensions =
     [(''CSV'', [''csv'', ''tsv'']),
      (''IMAGE'', [''jpg'', ''jpeg'', ''png'', ''gif'', ''bmp'', ''webp'']),
      (''AUDIO'', [''mp3'', ''wav'', ''flac'', ''aac'', ''ogg'']),
      (''TEXT'', [''txt'', ''json'', ''xml'', ''md'']),
      (''VIDEO'', [''mp4'', ''avi'', ''mov'', ''mkv'', ''webm''])]"

text \<open>
  \<open>checkFormatCompliance\<close> reads \<open>fileExtensions\<close> first, which throws when the
  field is missing; the format is looked up among the five keys of the table.
\<close>

definition checkFormatCompliance :: "submission \<Rightarrow> quality_error + rat" where
  "checkFormatCompliance s =
     (case fileExtensions s of
        None \<Rightarrow> Inl TypeError
      | Some exts \<Rightarrow>
          (let extensions = map trim (split_comma (toLowerCase exts));
               expected = (case map_of expectedExtensions (format s) of
                             Some e \<Rightarrow> e | None \<Rightarrow> [])
           in if length expected = 0 then Inr 100
              else (let matches = filter (\<lambda>ext. ext \<in> set expected) extensions
                    in Inr (of_nat (length matches) / of_nat (length extensions) * 100))))"











subsection \<open>Issues and summary\<close>

datatype issue_text =
    BelowThreshold string "rat option"
      \<comment> \<open>'<metric> score is below acceptable threshold: <score>%'\<close>
  | CouldBeImproved string "rat option" \<comment> \<open>'<metric> score could be improved: <score>%'\<close>
  | FileSizeLarge \<comment> \<open>'File size is very large, may affect performance'\<close>

record issue =
  severity :: string
  category :: string
  issue_description :: issue_text
  location :: string

text \<open>In a comparison \<open>null\<close> counts as 0.\<close>

definition to_number :: "rat option \<Rightarrow> rat" where
  "to_number v = (case v of None \<Rightarrow> 0 | Some x \<Rightarrow> x)"

definition metric_issue :: "issue list \<Rightarrow> string \<times> rat option \<Rightarrow> issue list" where
  "metric_issue issues entry =
     (case entry of (metric, score) \<Rightarrow>
        if to_number score < 60 then
          issues @ [\<lparr> severity = ''high'', category = metric,
                      issue_description = BelowThreshold metric score,
                      location = ''dataset'' \<rparr>]
        else if to_number score < 75 then
          issues @ [\<lparr> severity = ''medium'', category = metric,
                      issue_description = CouldBeImproved metric score,
                      location = ''dataset'' \<rparr>]
        else issues)"

definition fileSize_issue :: issue where
  "fileSize_issue =
     \<lparr> severity = ''medium'', category = ''fileSize'', issue_description = FileSizeLarge,
       location = ''metadata'' \<rparr>"

definition identifyIssues :: "metrics \<Rightarrow> submission \<Rightarrow> issue list" where
  "identifyIssues m s =
     (let issues = foldl metric_issue [] m
      in case fileSize s of
           Some n \<Rightarrow> if n > 1024 * 1024 * 1024 then issues @ [fileSize_issue] else issues
         | None \<Rightarrow> issues)"



subsection \<open>Persistence and report storage\<close>









record verification =
  v_submissionId :: nat
  v_requestId :: nat
  v_verifiedBy :: string
  v_approved :: bool
  v_overallScore :: int
  v_metrics :: metrics
  v_reportCid :: "string option"
  v_reportType :: string
  v_toolsUsed :: "string list"
  v_notes :: string
  v_issues :: "issue list"


definition QualityVerification_create ::
  "verification list \<Rightarrow> verification \<Rightarrow> (quality_error + verification) \<times> verification list"
where
  "QualityVerification_create store doc =
     (if v_submissionId doc \<in> set (map v_submissionId store)
      then (Inl (DuplicateKey (v_submissionId doc)), store)
      else (Inr doc, store @ [doc]))"



subsection \<open>\<open>QualityService.verifySubmission\<close>\<close>



section \<open>Example ledgers and submissions\<close>

definition absent_request :: contract_request where
  "absent_request =
     \<lparr> cr_id = 0, cr_buyer = [], cr_budget = 0, cr_formatsMask = 0, cr_description = [],
       cr_status = 0, cr_qualityScore = 0, cr_qualityReportCid = [],
       cr_finalizedSubmissionId = 0 \<rparr>"

definition absent_submission :: contract_submission where
  "absent_submission =
     \<lparr> cs_id = 0, cs_requestId = 0, cs_seller = [], cs_model = [], cs_format = 0,
       cs_fileSize = 0, cs_sampleCount = 0, cs_fileExtensions = [],
       cs_datasetReference = [], cs_status = 0, cs_qualityChecked = False \<rparr>"

text \<open>A ledger that holds nothing yet and whose contract reverts on a zero formats mask.\<close>

definition empty_ledger :: service where
  "empty_ledger =
     \<lparr> initialized = True, signer = True,
       requests = (\<lambda>_. Inr absent_request),
       submissions = (\<lambda>_. Inr absent_submission),
       contract_createRequest = (\<lambda>msk d b.
          if msk = 0 then Inl (LedgerFailure ''execution reverted'')
          else Inr \<lparr> hash = ''0xa1'', wait = Inr \<lparr> logs = [Parsed ''RequestCreated'' 1] \<rparr> \<rparr>),
       contract_verifySubmission = (\<lambda>_ _ _ _. Inl (LedgerFailure ''execution reverted'')) \<rparr>"

text \<open>
  A ledger after the verification of submission 1 has closed request 7: the submission
  is paid and the request names it as its finalised submission.
\<close>

definition paid_submission :: contract_submission where
  "paid_submission =
     \<lparr> cs_id = 1, cs_requestId = 7, cs_seller = ''0xAbC1'', cs_model = ''0xDeF2'',
       cs_format = 1, cs_fileSize = 500000, cs_sampleCount = 1000,
       cs_fileExtensions = ''csv'', cs_datasetReference = ''ref1'', cs_status = 3,
       cs_qualityChecked = True \<rparr>"

definition closed_request :: contract_request where
  "closed_request =
     \<lparr> cr_id = 7, cr_buyer = ''0xB0b5'', cr_budget = 1000, cr_formatsMask = 2,
       cr_description = ''tabular data'', cr_status = 1, cr_qualityScore = 90,
       cr_qualityReportCid = ''Qm1'', cr_finalizedSubmissionId = 1 \<rparr>"

definition verify_receipt :: receipt where
  "verify_receipt =
     \<lparr> logs = [Parsed ''SubmissionVerified'' 1, Parsed ''PaymentReleased'' 1] \<rparr>"

definition settled_ledger :: service where
  "settled_ledger =
     \<lparr> initialized = True, signer = True,
       requests = (\<lambda>i. if i = 7 then Inr closed_request else Inr absent_request),
       submissions = (\<lambda>i. if i = 1 then Inr paid_submission else Inr absent_submission),
       contract_createRequest = (\<lambda>_ _ _. Inl (LedgerFailure ''execution reverted'')),
       contract_verifySubmission = (\<lambda>_ _ _ _.
          Inr \<lparr> hash = ''0xf1'', wait = Inr verify_receipt \<rparr>) \<rparr>"





definition csv_submission :: submission where
  "csv_submission =
     \<lparr> submissionId = 1, sub_requestId = 7, format = ''CSV'', fileSize = Some 500000,
       sampleCount = Some 1000, fileExtensions = Some ''csv'',
       datasetReference = Some ''ref1'' \<rparr>"


definition graded_metrics :: metrics where
  "graded_metrics =
     [(''accuracy'', Some 55), (''validity'', Some 65), (''completeness'', Some 100),
      (''formatCompliance'', Some 100)]"

definition huge_submission :: submission where
  "huge_submission =
     \<lparr> submissionId = 2, sub_requestId = 7, format = ''CSV'',
       fileSize = Some (2 * 1024 ^ 3), sampleCount = Some 1000,
       fileExtensions = Some ''csv'', datasetReference = Some ''ref2'' \<rparr>"






section \<open>Verified properties\<close>

lemmas io_defs = io_bind_def io_call_def io_throw_def io_return_def ensureInitialized_def
  require_signer_def

subsection \<open>Formats mask\<close>

lemma roundtrip_masks:
  "\<forall>m \<in> set [1..63]. parseFormatsMask (FArray (decodeFormatsMask m)) = Some m"
  by code_simp

text \<open>
  C4, as stated, fails in its second half: \<open>decodeFormatsMask\<close> has no validity check,
  so mask 0 is not rejected but decodes to the empty list.
\<close>

theorem decodeFormatsMask_zero_counterexample: "decodeFormatsMask 0 = []"
  by code_simp

text \<open>
  C4 (amended): for every mask in [1,63], re-encoding the decoded list of format names
  reproduces the mask; mask 0 decodes to the empty list, and it is the re-encoding of
  that empty list which yields \<open>null\<close>.
\<close>

theorem formats_mask_roundtrip:
  "(1 \<le> m \<and> m \<le> 63 \<longrightarrow> parseFormatsMask (FArray (decodeFormatsMask m)) = Some m)
   \<and> decodeFormatsMask 0 = []
   \<and> parseFormatsMask (FArray (decodeFormatsMask 0)) = None"
proof -
  have "parseFormatsMask (FArray (decodeFormatsMask m)) = Some m" if "1 \<le> m" "m \<le> 63"
  proof -
    from that have "m \<in> set [1..63]" by simp
    with roundtrip_masks show ?thesis by blast
  qed
  moreover have "decodeFormatsMask 0 = []" by code_simp
  moreover have "parseFormatsMask (FArray (decodeFormatsMask 0)) = None" by code_simp
  ultimately show ?thesis by blast
qed

theorem formats_mask_roundtrip_witness:
  "(1::int) \<le> 37 \<and> (37::int) \<le> 63
   \<and> parseFormatsMask (FArray (decodeFormatsMask 37)) = Some 37
   \<and> decodeFormatsMask 37 = [''AUDIO'', ''IMAGE'', ''MIXED'']"
proof -
  have "decodeFormatsMask 37 = [''AUDIO'', ''IMAGE'', ''MIXED'']" by code_simp
  then show ?thesis using formats_mask_roundtrip [of 37] by simp
qed

subsection \<open>Synchronisation\<close>

text \<open>
  C5: when the canonical read of an id returns a record whose id is the sentinel 0,
  \<open>syncRequest\<close> and \<open>syncSubmission\<close> raise the not-found error right after the
  read; no mirror record is returned. (A service that is not initialised fails even
  earlier, without reading.)
\<close>

theorem sync_sentinel_not_found:
  "(requests svc rid = Inr cr \<and> cr_id cr = 0 \<longrightarrow>
      syncRequest svc rid =
        (if initialized svc then (Inl (RequestNotFound rid), [ReadRequest rid])
         else (Inl NotInitialized, [])))
   \<and> (submissions svc sid = Inr cs \<and> cs_id cs = 0 \<longrightarrow>
      syncSubmission svc sid =
        (if initialized svc then (Inl (SubmissionNotFound sid), [ReadSubmission sid])
         else (Inl NotInitialized, [])))"
  by (simp add: syncRequest_def syncSubmission_def ensureInitialized_def io_bind_def
      io_call_def io_throw_def io_return_def)

theorem sync_sentinel_not_found_witness:
  "requests empty_ledger 5 = Inr absent_request \<and> cr_id absent_request = 0
   \<and> syncRequest empty_ledger 5 = (Inl (RequestNotFound 5), [ReadRequest 5])
   \<and> submissions empty_ledger 9 = Inr absent_submission \<and> cs_id absent_submission = 0
   \<and> syncSubmission empty_ledger 9 = (Inl (SubmissionNotFound 9), [ReadSubmission 9])"
  using sync_sentinel_not_found [of empty_ledger 5 absent_request 9 absent_submission]
  by (simp add: empty_ledger_def absent_request_def absent_submission_def)

subsection \<open>Orchestrated writes\<close>

text \<open>
  C1, as stated, fails: \<open>createRequest\<close> never inspects the formats mask. With mask 0
  the transaction is sent; here the ledger itself reverts it, and the error is the
  ledger's, raised after the ledger call.
\<close>

theorem createRequest_zero_mask_counterexample:
  "createRequest empty_ledger 0 ''tabular data'' 1000 =
     (Inl (LedgerFailure ''execution reverted''), [SendCreateRequest 0 ''tabular data'' 1000])"
  by (simp add: createRequest_def io_defs empty_ledger_def)

text \<open>
  C1 (amended): \<open>createRequest\<close> with mask 0 is rejected before any ledger call only
  when the service is not initialised or has no signer. Otherwise its first ledger
  interaction is the submission of the transaction with mask 0, and a rejection by the
  ledger is what the caller receives.
\<close>

theorem createRequest_zero_mask:
  "(\<not> initialized svc \<longrightarrow> createRequest svc 0 d b = (Inl NotInitialized, []))
   \<and> (initialized svc \<and> \<not> signer svc \<longrightarrow>
        createRequest svc 0 d b = (Inl SignerNotAvailable, []))
   \<and> (initialized svc \<and> signer svc \<longrightarrow>
        (\<exists>rest. snd (createRequest svc 0 d b) = SendCreateRequest 0 d b # rest)
        \<and> (\<forall>e. contract_createRequest svc 0 d b = Inl e \<longrightarrow>
               createRequest svc 0 d b = (Inl e, [SendCreateRequest 0 d b])))"
  by (auto simp: createRequest_def io_defs split: sum.splits prod.splits option.splits)

theorem createRequest_zero_mask_witness:
  "initialized empty_ledger \<and> signer empty_ledger
   \<and> contract_createRequest empty_ledger 0 ''x'' 5 = Inl (LedgerFailure ''execution reverted'')
   \<and> createRequest empty_ledger 0 ''x'' 5 =
       (Inl (LedgerFailure ''execution reverted''), [SendCreateRequest 0 ''x'' 5])
   \<and> \<not> initialized (empty_ledger\<lparr>initialized := False\<rparr>)
   \<and> createRequest (empty_ledger\<lparr>initialized := False\<rparr>) 0 ''x'' 5 = (Inl NotInitialized, [])
   \<and> initialized (empty_ledger\<lparr>signer := False\<rparr>) \<and> \<not> signer (empty_ledger\<lparr>signer := False\<rparr>)
   \<and> createRequest (empty_ledger\<lparr>signer := False\<rparr>) 0 ''x'' 5 = (Inl SignerNotAvailable, [])"
  using createRequest_zero_mask [of empty_ledger "''x''" 5]
    createRequest_zero_mask [of "empty_ledger\<lparr>initialized := False\<rparr>" "''x''" 5]
    createRequest_zero_mask [of "empty_ledger\<lparr>signer := False\<rparr>" "''x''" 5]
  by (simp add: empty_ledger_def)

text \<open>
  C2, as stated, fails in its second half: on the settled ledger the verification of
  submission 1 finalises request 7, yet \<open>verifySubmission\<close> reads the submission only.
\<close>

theorem verifySubmission_no_syncRequest_counterexample:
  "verifySubmission settled_ledger 1 True 90 ''Qm1'' =
     (Inr (''0xf1'', verify_receipt),
      [SendVerifySubmission 1 True 90 ''Qm1'', AwaitReceipt ''0xf1'', ReadSubmission 1])
   \<and> map_sum id cs_requestId (submissions settled_ledger 1) = Inr 7
   \<and> map_sum id cr_finalizedSubmissionId (requests settled_ledger 7) = Inr 1
   \<and> ReadRequest 7 \<notin> set (snd (verifySubmission settled_ledger 1 True 90 ''Qm1''))"
  by (simp add: verifySubmission_def syncSubmission_def io_defs settled_ledger_def
      paid_submission_def closed_request_def)

text \<open>
  C2 (amended): after a confirmed \<open>verifySubmission\<close> transaction the orchestrator
  invokes \<open>syncSubmission\<close> for the id, unconditionally, and returns its failure if it
  fails; it never invokes \<open>syncRequest\<close>, whatever the transaction did to the parent
  request.
\<close>

theorem verifySubmission_syncs_submission_only:
  "(\<forall>rid. ReadRequest rid \<notin> set (snd (verifySubmission svc sid a q c)))
   \<and> (initialized svc \<and> signer svc \<and> contract_verifySubmission svc sid a q c = Inr t
        \<and> wait t = Inr rcpt \<longrightarrow>
        verifySubmission svc sid a q c =
          (map_sum id (\<lambda>_. (hash t, rcpt)) (fst (syncSubmission svc sid)),
           [SendVerifySubmission sid a q c, AwaitReceipt (hash t)]
             @ snd (syncSubmission svc sid))
        \<and> snd (syncSubmission svc sid) = [ReadSubmission sid])"
  by (auto simp: verifySubmission_def syncSubmission_def io_defs split: sum.splits prod.splits)

theorem verifySubmission_syncs_submission_only_witness:
  "initialized settled_ledger \<and> signer settled_ledger
   \<and> contract_verifySubmission settled_ledger 1 True 90 ''Qm1''
       = Inr \<lparr> hash = ''0xf1'', wait = Inr verify_receipt \<rparr>
   \<and> snd (verifySubmission settled_ledger 1 True 90 ''Qm1'') =
       [SendVerifySubmission 1 True 90 ''Qm1'', AwaitReceipt ''0xf1'', ReadSubmission 1]"
  using verifySubmission_syncs_submission_only
    [of settled_ledger 1 True 90 "''Qm1''" "\<lparr> hash = ''0xf1'', wait = Inr verify_receipt \<rparr>"
      verify_receipt]
  by (simp add: settled_ledger_def)

subsection \<open>Event listeners\<close>





subsection \<open>Quality checks\<close>

lemma split_comma_nonempty: "split_comma s \<noteq> []"
  by (induction s) (auto split: list.splits)

text \<open>
  C10: for a format with a defined expected-extension set and an empty
  \<open>fileExtensions\<close> string, \<open>checkFormatCompliance\<close> returns 0: the empty string
  splits into the single empty token, which matches no expected extension. For every
  input string the token list, whose length is the divisor, is non-empty.
\<close>

theorem empty_extensions_compliance_zero:
  "(format s \<in> set [''AUDIO'', ''CSV'', ''IMAGE'', ''TEXT'', ''VIDEO'']
      \<and> fileExtensions s = Some [] \<longrightarrow>
      checkFormatCompliance s = Inr 0)
   \<and> map trim (split_comma (toLowerCase [])) = [[]]
   \<and> length (map trim (split_comma (toLowerCase exts))) \<ge> 1"
proof -
  have tokens: "map trim (split_comma (toLowerCase [])) = [[]]"
    by (simp add: toLowerCase_def trim_def)
  have "checkFormatCompliance s = Inr 0"
    if "format s \<in> set [''AUDIO'', ''CSV'', ''IMAGE'', ''TEXT'', ''VIDEO'']"
      and "fileExtensions s = Some []"
    using that tokens by (auto simp: checkFormatCompliance_def expectedExtensions_def)
  moreover have "length (map trim (split_comma (toLowerCase exts))) \<ge> 1"
    using split_comma_nonempty [of "toLowerCase exts"]
    by (cases "split_comma (toLowerCase exts)") auto
  ultimately show ?thesis using tokens by blast
qed

theorem empty_extensions_compliance_zero_witness:
  "format csv_submission \<in> set [''AUDIO'', ''CSV'', ''IMAGE'', ''TEXT'', ''VIDEO'']
   \<and> fileExtensions (csv_submission\<lparr> fileExtensions := Some [] \<rparr>) = Some []
   \<and> checkFormatCompliance (csv_submission\<lparr> fileExtensions := Some [] \<rparr>) = Inr 0"
  using empty_extensions_compliance_zero [of "csv_submission\<lparr> fileExtensions := Some [] \<rparr>"]
  by (simp add: csv_submission_def)








subsection \<open>Approval\<close>





subsection \<open>Issues\<close>

lemma foldl_metric_issue:
  "foldl metric_issue acc m = acc @ foldl metric_issue [] m"
proof (induction m arbitrary: acc)
  case Nil
  then show ?case by simp
next
  case (Cons e m)
  have "foldl metric_issue (metric_issue acc e) m = metric_issue acc e @ foldl metric_issue [] m"
    by (rule Cons.IH)
  moreover have "foldl metric_issue (metric_issue [] e) m = metric_issue [] e @ foldl metric_issue [] m"
    by (rule Cons.IH)
  moreover have "metric_issue acc e = acc @ metric_issue [] e"
    by (cases e) (simp add: metric_issue_def)
  ultimately show ?case by simp
qed

lemma foldl_metric_issue_Cons:
  "foldl metric_issue [] (e # m) = metric_issue [] e @ foldl metric_issue [] m"
  using foldl_metric_issue [of "metric_issue [] e" m] by simp

lemma metric_issue_about:
  "filter (\<lambda>i. category i = k \<and> location i = ''dataset'') (metric_issue [] (k', sc)) =
     (if k' = k then metric_issue [] (k', sc) else [])"
  by (simp add: metric_issue_def)

lemma issues_other_keys:
  "k \<notin> fst ` set m \<Longrightarrow>
   filter (\<lambda>i. category i = k \<and> location i = ''dataset'') (foldl metric_issue [] m) = []"
proof (induction m)
  case Nil
  then show ?case by simp
next
  case (Cons e m)
  obtain k' sc where e: "e = (k', sc)" by (cases e)
  from Cons.prems e have "k' \<noteq> k" and "k \<notin> fst ` set m" by auto
  with Cons.IH e show ?case
    by (simp add: foldl_metric_issue_Cons metric_issue_about del: foldl_Cons)
qed

lemma issues_of_key:
  "distinct (map fst m) \<Longrightarrow> (k, sc) \<in> set m \<Longrightarrow>
   filter (\<lambda>i. category i = k \<and> location i = ''dataset'') (foldl metric_issue [] m) =
     metric_issue [] (k, sc)"
proof (induction m)
  case Nil
  then show ?case by simp
next
  case (Cons e m)
  obtain k' sc' where e: "e = (k', sc')" by (cases e)
  show ?case
  proof (cases "e = (k, sc)")
    case True
    with Cons.prems have "k \<notin> fst ` set m" by auto
    with True show ?thesis
      by (simp add: foldl_metric_issue_Cons metric_issue_about issues_other_keys
          del: foldl_Cons)
  next
    case False
    with Cons.prems have in_m: "(k, sc) \<in> set m" by auto
    then have "k \<in> fst ` set m" by force
    with Cons.prems e have "k' \<noteq> k" by auto
    moreover from Cons.prems have "distinct (map fst m)" by simp
    ultimately show ?thesis
      using Cons.IH in_m e
      by (simp add: foldl_metric_issue_Cons metric_issue_about del: foldl_Cons)
  qed
qed

lemma identifyIssues_about:
  "filter (\<lambda>i. category i = k \<and> location i = ''dataset'') (identifyIssues m s) =
   filter (\<lambda>i. category i = k \<and> location i = ''dataset'') (foldl metric_issue [] m)"
  by (simp add: identifyIssues_def Let_def fileSize_issue_def split: option.splits)

text \<open>
  C8: for every metric of the map with score \<open>v\<close>, the issues about that metric are
  one issue of severity high when \<open>v < 60\<close>, one of severity medium when
  \<open>60 \<le> v < 75\<close>, and none when \<open>v \<ge> 75\<close>; a file size above 1 GiB appends the
  medium fileSize issue after the metric issues, whatever the scores are.
\<close>

theorem identifyIssues_severity:
  "(distinct (map fst m) \<and> (k, Some v) \<in> set m \<longrightarrow>
      filter (\<lambda>i. category i = k \<and> location i = ''dataset'') (identifyIssues m s) =
        (if v < 60 then
           [\<lparr> severity = ''high'', category = k,
              issue_description = BelowThreshold k (Some v), location = ''dataset'' \<rparr>]
         else if v < 75 then
           [\<lparr> severity = ''medium'', category = k,
              issue_description = CouldBeImproved k (Some v), location = ''dataset'' \<rparr>]
         else []))
   \<and> (fileSize s = Some n \<and> n > 1024 ^ 3 \<longrightarrow>
        identifyIssues m s = foldl metric_issue [] m @ [fileSize_issue]
        \<and> severity fileSize_issue = ''medium'' \<and> category fileSize_issue = ''fileSize'')"
proof -
  have "filter (\<lambda>i. category i = k \<and> location i = ''dataset'') (identifyIssues m s) =
      metric_issue [] (k, Some v)"
    if "distinct (map fst m)" "(k, Some v) \<in> set m"
    using that by (simp add: identifyIssues_about issues_of_key)
  moreover have "identifyIssues m s = foldl metric_issue [] m @ [fileSize_issue]"
    if "fileSize s = Some n" "n > 1024 ^ 3"
    using that by (simp add: identifyIssues_def Let_def)
  ultimately show ?thesis
    by (simp add: metric_issue_def to_number_def fileSize_issue_def)
qed

theorem identifyIssues_severity_witness:
  "distinct (map fst graded_metrics)
   \<and> (''accuracy'', Some 55) \<in> set graded_metrics
   \<and> (''validity'', Some 65) \<in> set graded_metrics
   \<and> (''completeness'', Some 100) \<in> set graded_metrics
   \<and> fileSize huge_submission = Some (2 * 1024 ^ 3) \<and> (2 * 1024 ^ 3 :: int) > 1024 ^ 3
   \<and> identifyIssues graded_metrics huge_submission =
       [\<lparr> severity = ''high'', category = ''accuracy'',
          issue_description = BelowThreshold ''accuracy'' (Some 55), location = ''dataset'' \<rparr>,
        \<lparr> severity = ''medium'', category = ''validity'',
          issue_description = CouldBeImproved ''validity'' (Some 65), location = ''dataset'' \<rparr>,
        fileSize_issue]
   \<and> filter (\<lambda>i. category i = ''completeness'' \<and> location i = ''dataset'')
        (identifyIssues graded_metrics huge_submission) = []"
proof -
  have d: "distinct (map fst graded_metrics)" by (simp add: graded_metrics_def)
  have f: "fileSize huge_submission = Some (2 * 1024 ^ 3)" by (simp add: huge_submission_def)
  have fold: "foldl metric_issue [] graded_metrics =
       [\<lparr> severity = ''high'', category = ''accuracy'',
          issue_description = BelowThreshold ''accuracy'' (Some 55), location = ''dataset'' \<rparr>,
        \<lparr> severity = ''medium'', category = ''validity'',
          issue_description = CouldBeImproved ''validity'' (Some 65), location = ''dataset'' \<rparr>]"
    by (simp add: graded_metrics_def metric_issue_def to_number_def)
  have c: "(''completeness'', Some 100) \<in> set graded_metrics" by (simp add: graded_metrics_def)
  show ?thesis
    using identifyIssues_severity [of graded_metrics "''completeness''" 100 huge_submission "2 * 1024 ^ 3"]
      d f fold c
    by (simp add: graded_metrics_def)
qed

subsection \<open>One verification per submission\<close>

lemma create_keeps_distinct:
  "distinct (map v_submissionId store) \<Longrightarrow>
   distinct (map v_submissionId (snd (QualityVerification_create store doc)))"
  by (simp add: QualityVerification_create_def)












end
